theory Spec2Isabelle
  imports Main
begin

section \<open>JavaScript strings and the String methods the plugin calls\<close>

text \<open>
  A JavaScript string is modelled as a HOL \<open>string\<close>: a sequence of code units, each
  restricted to one byte (the ISO 8859-1 range). On that range \<open>toLowerCase\<close> maps A-Z and
  the capital letters U+00C0 .. U+00DE (without the multiplication sign U+00D7) to the
  letter 32 positions later, \<open>trim\<close> removes tab, line feed, vertical tab, form feed,
  carriage return, space and no-break space at both ends, and the \<open>.\<close> of a regular
  expression matches every code unit but line feed and carriage return.
  \<open>normalize('NFC')\<close> works from the Unicode tables, which are not part of the plugin: it
  is a parameter of the model, as the libraries are.
\<close>

definition isWhiteSpace :: "char \<Rightarrow> bool" where
  "isWhiteSpace c = (of_char c \<in> {9, 10, 11, 12, 13, 32, 160 :: nat})"

definition isLineTerminator :: "char \<Rightarrow> bool" where
  "isLineTerminator c = (c = CHR 0x0A \<or> c = CHR 0x0D)"

definition isUpper :: "char \<Rightarrow> bool" where
  "isUpper c = (let n = (of_char c :: nat) in
     (65 \<le> n \<and> n \<le> 90) \<or> (192 \<le> n \<and> n \<le> 222 \<and> n \<noteq> 215))"

definition lowerChar :: "char \<Rightarrow> char" where
  "lowerChar c = (if isUpper c then char_of (of_char c + (32 :: nat)) else c)"

definition toLowerCase :: "string \<Rightarrow> string" where
  "toLowerCase s = map lowerChar s"

definition trim :: "string \<Rightarrow> string" where
  "trim s = rev (dropWhile isWhiteSpace (rev (dropWhile isWhiteSpace s)))"

text \<open>\<open>s.lastIndexOf(c)\<close>: the index of the last occurrence of \<open>c\<close>, or \<open>-1\<close>.\<close>

fun lastIndexOf :: "char \<Rightarrow> string \<Rightarrow> int" where
  "lastIndexOf c [] = -1"
| "lastIndexOf c (x # xs) =
     (let r = lastIndexOf c xs in
      if r \<noteq> -1 then r + 1 else if x = c then 0 else -1)"

text \<open>
  \<open>s.substr(start, len)\<close> and \<open>s.substr(start)\<close> for \<open>start \<ge> 0\<close>, the only way the
  plugin calls them: a negative length gives the empty string.
\<close>

definition substr :: "string \<Rightarrow> int \<Rightarrow> int \<Rightarrow> string" where
  "substr s start len = (if len \<le> 0 then [] else take (nat len) (drop (nat start) s))"

definition substrFrom :: "string \<Rightarrow> int \<Rightarrow> string" where
  "substrFrom s start = drop (nat start) s"

text \<open>
  \<open>s.replace(/\+.*$/, '')\<close>. Without the \<open>m\<close> flag \<open>$\<close> matches at the end of the input
  only, and \<open>.\<close> does not match a line terminator: the match starts at the first \<open>+\<close> that
  no line terminator follows, and runs to the end. Without such a \<open>+\<close> nothing is replaced.
\<close>

fun replacePlusTail :: "string \<Rightarrow> string" where
  "replacePlusTail [] = []"
| "replacePlusTail (c # cs) =
     (if c = CHR ''+'' \<and> \<not> list_ex isLineTerminator cs then []
      else c # replacePlusTail cs)"

section \<open>normalizeAddress\<close>

text \<open>
  The argument of \<open>normalizeAddress\<close> is a string, an address object or \<open>undefined\<close>.
  An address object is what \<open>addressparser\<close> returns: \<open>name\<close>, \<open>address\<close>, and \<open>group\<close>
  (the members, as name and address) when the entry is a group. Record fields carry a
  prefix for their record (\<open>a_\<close> here), since several records of the plugin share field
  names and \<open>from\<close> is a keyword.
\<close>

record address_obj =
  a_name :: "string option"
  a_address :: "string option"
  a_group :: "(string \<times> string) list option"

datatype address_arg = Str string | Obj address_obj | Undefined

text \<open>Truthiness of an optional string: \<open>undefined\<close> and \<open>''\<close> are falsy.\<close>

fun truthy :: "string option \<Rightarrow> bool" where
  "truthy None = False"
| "truthy (Some s) = (s \<noteq> [])"

text \<open>
  Lines 404 to 410: the canonical form of a non-empty address string, from the part before
  the last \<open>@\<close> and the part after it.
\<close>

definition localPart :: "string \<Rightarrow> string" where
  "localPart a = substr a 0 (lastIndexOf CHR ''@'' a)"

definition domainPart :: "string \<Rightarrow> string" where
  "domainPart a = substrFrom a (lastIndexOf CHR ''@'' a + 1)"

definition canonicalAddress ::
  "(string \<Rightarrow> string) \<Rightarrow> (string \<Rightarrow> string) \<Rightarrow> string \<Rightarrow> string" where
  "canonicalAddress normalizeNFC toUnicode a =
     (let user = trim (toLowerCase (replacePlusTail (normalizeNFC (localPart a))));
          domain = trim (toLowerCase (domainPart a));
          addr = user @ ''@'' @ toUnicode domain
      in addr)"

text \<open>
  \<open>normalizeAddress(address)\<close>. The function is private to the module and every call
  leaves \<open>withNames\<close> undefined, so the result is the string. \<open>String.normalize\<close> with
  the form NFC and \<open>punycode.toUnicode\<close> are the two parameters.
\<close>

fun normalizeAddress ::
  "(string \<Rightarrow> string) \<Rightarrow> (string \<Rightarrow> string) \<Rightarrow> address_arg \<Rightarrow> string" where
  "normalizeAddress normalizeNFC toUnicode Undefined = []"
| "normalizeAddress normalizeNFC toUnicode (Str s) =
     (if \<not> truthy (Some s) then [] else canonicalAddress normalizeNFC toUnicode s)"
| "normalizeAddress normalizeNFC toUnicode (Obj a) =
     (if \<not> truthy (a_address a) then []
      else canonicalAddress normalizeNFC toUnicode (the (a_address a)))"

text \<open>
  The two parameters on plain ASCII text: a string of ASCII characters is in the form NFC
  already, and \<open>punycode.toUnicode\<close> returns a domain none of whose labels starts with
  \<open>xn--\<close> as it is.
\<close>

definition normalizeNFCPlain :: "string \<Rightarrow> string" where
  "normalizeNFCPlain s = s"

definition toUnicodePlain :: "string \<Rightarrow> string" where
  "toUnicodePlain domain = domain"

section \<open>Errors, completion of a hook, configuration\<close>

text \<open>
  A JavaScript \<open>Error\<close>: its message, the \<open>responseCode\<close> when one is attached, and its
  \<open>name\<close>. A hook ends by calling \<open>next()\<close> or \<open>next(err)\<close>.
\<close>

datatype js_error = JsError (message: string) (responseCode: "nat option") (errorName: string)

definition newError :: "string \<Rightarrow> js_error" where
  "newError msg = JsError msg None ''Error''"

datatype completion = Next | NextErr js_error

text \<open>A configuration value that is one string or an array of strings.\<close>

datatype str_or_list = S string | L "string list"

fun truthyArg :: "str_or_list option \<Rightarrow> bool" where
  "truthyArg None = False"
| "truthyArg (Some (S s)) = (s \<noteq> [])"
| "truthyArg (Some (L xs)) = True"

text \<open>\<open>[].concat(v)\<close>: an array argument is spliced in, a string is appended.\<close>

fun concatArg :: "str_or_list \<Rightarrow> string list" where
  "concatArg (S s) = [s]"
| "concatArg (L xs) = xs"

record config =
  c_interfaces :: "str_or_list option"
  c_forwarder :: "string option"
  c_rewriteDomain :: string
  c_mx :: "str_or_list option"
  c_mxPort :: "int option"
  c_zoneAddress :: "string option"
  c_hostname :: "string option"

definition interfaces :: "config \<Rightarrow> string list" where
  "interfaces cfg =
     concatArg (if truthyArg (c_interfaces cfg) then the (c_interfaces cfg) else S ''*'')"

definition allInterfaces :: "config \<Rightarrow> bool" where
  "allInterfaces cfg = (''*'' \<in> set (interfaces cfg))"

definition checkInterface :: "config \<Rightarrow> string \<Rightarrow> bool" where
  "checkInterface cfg iface =
     (if allInterfaces cfg \<or> iface \<in> set (interfaces cfg) then True else False)"

section \<open>The objects the hooks receive\<close>

text \<open>
  The user document, with the five projected fields and \<open>_id\<close>. A numeric field that the
  code tests for truthiness is optional: \<open>undefined\<close> and \<open>0\<close> are falsy.
\<close>

record user =
  u_id :: string
  u_username :: string
  u_address :: string
  u_quota :: "int option"
  u_storageUsed :: "int option"
  u_recipients :: "int option"

fun truthyNum :: "int option \<Rightarrow> bool" where
  "truthyNum None = False"
| "truthyNum (Some n) = (n \<noteq> 0)"

text \<open>\<open>a > b\<close> on numbers that may be \<open>undefined\<close>: false when either is.\<close>

fun numGreater :: "int option \<Rightarrow> int option \<Rightarrow> bool" where
  "numGreater (Some a) (Some b) = (a > b)"
| "numGreater _ _ = False"

text \<open>
  The envelope of a message. \<open>e_oid\<close> is the identity of the JavaScript object, the key
  of the \<open>users\<close> WeakMap. \<open>'h\<close> is the host's header collection.
\<close>

record 'h envelope =
  e_oid :: nat
  e_id :: string
  e_interface :: string
  e_from :: string
  e_to :: "string list"
  e_user :: "string option"
  e_origin :: "string option"
  e_originhost :: "string option"
  e_transhost :: "string option"
  e_transtype :: string
  e_tls :: "(string \<times> string) option"
  e_time :: int
  e_headers :: 'h
  e_remoteAddress :: "string option"
  e_clientHostname :: "string option"
  e_hostNameAppearsAs :: "string option"
  e_transmissionType :: "string option"

record session =
  s_oid :: nat
  s_interface :: string
  s_user :: "string option"
  s_remoteAddress :: string
  s_envelopeId :: string

record auth =
  au_username :: string
  au_password :: string

record auth_result =
  r_username :: string
  r_scope :: string
  r_enabled2fa :: bool

record 'h delivery =
  d_id :: string
  d_seq :: string
  d_interface :: "string option"
  d_from :: "string option"
  d_to :: string
  d_headers :: 'h
  d_mx :: "string list option"
  d_mxPort :: "int option"
  d_useLMTP :: bool
  d_zoneAddress :: "string option"

record counter_result =
  cr_success :: bool
  cr_value :: int
  cr_ttl :: int

text \<open>The argument of \<open>messageHandler.add\<close>.\<close>

record archive_request =
  ar_user :: string
  ar_specialUse :: string
  ar_source :: string
  ar_from :: string
  ar_to :: "string list"
  ar_origin :: "string option"
  ar_originhost :: "string option"
  ar_transhost :: "string option"
  ar_transtype :: "string option"
  ar_time :: int
  ar_date :: bool
  ar_flags :: "string list"
  ar_raw :: string
  ar_skipExisting :: bool

text \<open>
  What the queue hook does to the outside: the streams it opened on the message store
  and the requests it handed to the archive.
\<close>

record io =
  opened :: "string list"
  archived :: "archive_request list"

section \<open>The collaborators\<close>

text \<open>
  The libraries and stores the plugin calls are parameters of the model, one field each:
  \<open>userHandler.authenticate\<close> (username, password, ip), \<open>findOne\<close> on the collection
  \<open>users\<close> by username and on \<open>addresses\<close> by address and, when given, owner (the result
  is only tested for truthiness), the counter of \<open>wildduck/lib/counters\<close> (key, increment,
  ceiling, on a store of type \<open>'c\<close>), \<open>addressparser\<close>, \<open>MimeNode._convertAddresses\<close>, the
  methods \<open>getFirst\<close>, \<open>update\<close>, \<open>add\<close> (at index \<open>Infinity\<close>) and \<open>build\<close> of the header
  collection, the content of a stream of the message store (its chunks, or the error it
  emits), \<open>srsRewriter.rewrite\<close> (which may throw), \<open>String.normalize\<close> with the form
  NFC, \<open>punycode.toUnicode\<close>, \<open>new Date(t).toUTCString()\<close>, \<open>Date.now()\<close> and
  \<open>os.hostname()\<close>. A store that fails
  answers \<open>Inl\<close> with its error. Calls of the logger are left out: they return nothing.
\<close>

record ('h, 'c) ext =
  x_authenticate :: "string \<Rightarrow> string \<Rightarrow> string \<Rightarrow> js_error + auth_result option"
  x_findUser :: "string \<Rightarrow> js_error + user option"
  x_findAddress :: "string \<Rightarrow> string option \<Rightarrow> js_error + bool"
  x_ttlcounter :: "'c \<Rightarrow> string \<Rightarrow> int \<Rightarrow> int \<Rightarrow> (js_error + counter_result) \<times> 'c"
  x_addressparser :: "string \<Rightarrow> address_obj list"
  x_convertAddresses :: "address_obj list \<Rightarrow> string"
  x_getFirst :: "'h \<Rightarrow> string \<Rightarrow> string"
  x_update :: "'h \<Rightarrow> string \<Rightarrow> string \<Rightarrow> 'h"
  x_add :: "'h \<Rightarrow> string \<Rightarrow> string \<Rightarrow> 'h"
  x_build :: "'h \<Rightarrow> string"
  x_readStream :: "string \<Rightarrow> js_error + string list"
  x_srsRewrite :: "string \<Rightarrow> string \<Rightarrow> js_error + string"
  x_normalizeNFC :: "string \<Rightarrow> string"
  x_toUnicode :: "string \<Rightarrow> string"
  x_toUTCString :: "int \<Rightarrow> string"
  x_now :: int
  x_osHostname :: string

section \<open>Numbers as text\<close>

text \<open>The decimal text of an integer, as string concatenation produces it.\<close>

definition digitChar :: "nat \<Rightarrow> char" where
  "digitChar d = ''0123456789'' ! d"

function showNat :: "nat \<Rightarrow> string" where
  "showNat n = (if n < 10 then [digitChar n] else showNat (n div 10) @ [digitChar (n mod 10)])"
  by pat_completeness auto
termination
  by (relation "measure (\<lambda>n. n)") auto

declare showNat.simps [simp del]

definition showInt :: "int \<Rightarrow> string" where
  "showInt i = (if i < 0 then ''-'' @ showNat (nat (- i)) else showNat (nat i))"

text \<open>The number that a decimal text denotes, with a minus sign in front or without.\<close>

definition digitsValue :: "string \<Rightarrow> nat" where
  "digitsValue s = foldl (\<lambda>v c. 10 * v + (of_char c - 48)) 0 s"

definition decimalValue :: "string \<Rightarrow> int" where
  "decimalValue s =
     (if take 1 s = ''-'' then - int (digitsValue (drop 1 s)) else int (digitsValue s))"

text \<open>
  \<open>Math.round(a / b)\<close> for integers \<open>a\<close> and \<open>b > 0\<close>: the nearest integer, a half
  rounded up. For a time to live in seconds the quotient in double precision rounds to the
  same integer as the exact one.
\<close>

definition mathRoundDiv :: "int \<Rightarrow> int \<Rightarrow> int" where
  "mathRoundDiv a b = (2 * a + b) div (2 * b)"

section \<open>getUser\<close>

definition CRLF :: string where
  "CRLF = [CHR 0x0D, CHR 0x0A]"

definition dquote :: string where
  "dquote = [CHR 0x22]"

text \<open>
  The WeakMap \<open>users\<close> is a map from object identities to user documents. \<open>getUser\<close>
  answers from the map when the object has an entry; otherwise it needs the username,
  asks the store, and records the document it found.
\<close>

definition getUser ::
  "('h, 'c) ext \<Rightarrow> (nat \<rightharpoonup> user) \<Rightarrow> nat \<Rightarrow> string option \<Rightarrow> (js_error + user) \<times> (nat \<rightharpoonup> user)" where
  "getUser X users oid euser =
     (case users oid of
        Some u \<Rightarrow> (Inr u, users)
      | None \<Rightarrow>
          if \<not> truthy euser then (Inl (newError ''Insufficient user info''), users)
          else (case x_findUser X (the euser) of
                  Inl err \<Rightarrow> (Inl err, users)
                | Inr None \<Rightarrow>
                    (Inl (newError (''User '' @ dquote @ the euser @ dquote @ '' was not found'')),
                     users)
                | Inr (Some u) \<Rightarrow> (Inr u, users(oid \<mapsto> u))))"

section \<open>smtp:auth\<close>

definition authFailed :: js_error where
  "authFailed = JsError ''Authentication failed'' (Some 535) ''Error''"

definition smtp_auth ::
  "('h, 'c) ext \<Rightarrow> config \<Rightarrow> auth \<Rightarrow> session \<Rightarrow> auth \<times> completion" where
  "smtp_auth X cfg au sess =
     (if \<not> checkInterface cfg (s_interface sess) then (au, Next)
      else (case x_authenticate X (au_username au) (au_password au) (s_remoteAddress sess) of
              Inl err \<Rightarrow> (au, NextErr err)
            | Inr None \<Rightarrow> (au, NextErr authFailed)
            | Inr (Some result) \<Rightarrow>
                if r_scope result = ''master'' \<and> r_enabled2fa result
                then (au, NextErr authFailed)
                else (au\<lparr>au_username := r_username result\<rparr>, Next)))"

section \<open>message:headers\<close>

definition emptyObj :: address_obj where
  "emptyObj = \<lparr>a_name = None, a_address = None, a_group = None\<rparr>"

text \<open>Lines 70 to 82: the first address of the From: header, \<open>{}\<close> for a group.\<close>

definition headerFromObj :: "('h, 'c) ext \<Rightarrow> 'h \<Rightarrow> address_obj option" where
  "headerFromObj X hs =
     (let headerFrom = x_getFirst X hs ''from'' in
      if headerFrom = [] then None
      else (case x_addressparser X headerFrom of
              [] \<Rightarrow> None
            | a # _ \<Rightarrow> Some (if a_group a \<noteq> None then emptyObj else a)))"

fun argOf :: "string option \<Rightarrow> address_arg" where
  "argOf None = Undefined"
| "argOf (Some s) = Str s"

definition message_headers ::
  "('h, 'c) ext \<Rightarrow> config \<Rightarrow> (nat \<rightharpoonup> user) \<Rightarrow> 'h envelope \<Rightarrow>
     (nat \<rightharpoonup> user) \<times> 'h envelope \<times> completion" where
  "message_headers X cfg users envelope =
     (if \<not> checkInterface cfg (e_interface envelope) then (users, envelope, Next)
      else
        let headerFrom = x_getFirst X (e_headers envelope) ''from'';
            fromObj = headerFromObj X (e_headers envelope)
        in (case getUser X users (e_oid envelope) (e_user envelope) of
              (Inl err, users') \<Rightarrow> (users', envelope, NextErr err)
            | (Inr u, users') \<Rightarrow>
                (case x_findAddress X (normalizeAddress (x_normalizeNFC X) (x_toUnicode X) (Str (e_from envelope)))
                        (Some (u_id u)) of
                   Inl err \<Rightarrow> (users', envelope, NextErr err)
                 | Inr addressData \<Rightarrow>
                     let envelope1 =
                           (if \<not> addressData then envelope\<lparr>e_from := u_address u\<rparr> else envelope)
                     in (case fromObj of
                           None \<Rightarrow> (users', envelope1, Next)
                         | Some obj \<Rightarrow>
                             (case x_findAddress X
                                     (normalizeAddress (x_normalizeNFC X) (x_toUnicode X) (argOf (a_address obj)))
                                     (Some (u_id u)) of
                                Inl err \<Rightarrow> (users', envelope1, NextErr err)
                              | Inr addressData2 \<Rightarrow>
                                  if addressData2 then (users', envelope1, Next)
                                  else
                                    let obj' = obj\<lparr>a_address := Some (e_from envelope1)\<rparr>;
                                        newHeaderFrom = x_convertAddresses X [obj'];
                                        h1 = x_update X (e_headers envelope1) ''From'' newHeaderFrom;
                                        h2 = x_update X h1 ''X-WildDuck-Original-From'' headerFrom
                                    in (users', envelope1\<lparr>e_headers := h2\<rparr>, Next))))))"

section \<open>smtp:rcpt_to\<close>

text \<open>Lines 160 to 169: \<open>ttlHuman\<close>, \<open>None\<close> for \<open>false\<close>.\<close>

definition ttlHuman :: "int \<Rightarrow> string option" where
  "ttlHuman ttl =
     (if ttl = 0 then None
      else if ttl < 60 then Some (showInt ttl @ '' seconds'')
      else if ttl < 3600 then Some (showInt (mathRoundDiv ttl 60) @ '' minutes'')
      else Some (showInt (mathRoundDiv ttl 3600) @ '' hours''))"

definition limitError :: "int \<Rightarrow> js_error" where
  "limitError ttl =
     JsError (''You reached a daily sending limit for your account'' @
               (if ttl \<noteq> 0 then ''. Limit expires in '' @ the (ttlHuman ttl) else []))
             (Some 550) ''SMTPResponse''"

definition smtp_rcpt_to ::
  "('h, 'c) ext \<Rightarrow> config \<Rightarrow> (nat \<rightharpoonup> user) \<times> 'c \<Rightarrow> address_obj \<Rightarrow> session \<Rightarrow>
     ((nat \<rightharpoonup> user) \<times> 'c) \<times> completion" where
  "smtp_rcpt_to X cfg st addr sess =
     (let users = fst st; counters = snd st in
      if \<not> checkInterface cfg (s_interface sess) then ((users, counters), Next)
      else (case getUser X users (s_oid sess) (s_user sess) of
              (Inl err, users') \<Rightarrow> ((users', counters), Next)
            | (Inr u, users') \<Rightarrow>
                if \<not> truthyNum (u_recipients u) then ((users', counters), Next)
                else (case x_ttlcounter X counters (''wdr:'' @ u_id u) 1 (the (u_recipients u)) of
                        (Inl err, counters') \<Rightarrow> ((users', counters'), NextErr err)
                      | (Inr result, counters') \<Rightarrow>
                          if \<not> cr_success result
                          then ((users', counters'), NextErr (limitError (cr_ttl result)))
                          else ((users', counters'), Next))))"

section \<open>generateReceivedHeader\<close>

text \<open>\<open>xs.join(sep)\<close>.\<close>

fun joinWith :: "string \<Rightarrow> string list \<Rightarrow> string" where
  "joinWith sep [] = []"
| "joinWith sep [x] = x"
| "joinWith sep (x # y # ys) = x @ sep @ joinWith sep (y # ys)"

text \<open>\<open>s.replace(pat, rep)\<close> for a pattern without metacharacters: the first match only.\<close>

fun replaceFirst :: "string \<Rightarrow> string \<Rightarrow> string \<Rightarrow> string" where
  "replaceFirst pat rep [] = (if pat = [] then rep else [])"
| "replaceFirst pat rep (c # cs) =
     (if take (length pat) (c # cs) = pat then rep @ drop (length pat) (c # cs)
      else c # replaceFirst pat rep cs)"

text \<open>Lines 354 to 362: the origin, from the address literal and the client hostname.\<close>

definition originhostOf :: "'h envelope \<Rightarrow> string option" where
  "originhostOf envelope =
     (if truthy (e_originhost envelope) \<and> take 1 (the (e_originhost envelope)) \<noteq> ''[''
      then e_originhost envelope else None)"

definition originOf :: "'h envelope \<Rightarrow> string" where
  "originOf envelope =
     (let origin = (if truthy (e_origin envelope) then ''['' @ the (e_origin envelope) @ '']''
                    else []);
          originhost = originhostOf envelope;
          origins = (if origin \<noteq> [] then [origin] else []) @
                    (case originhost of None \<Rightarrow> [] | Some h \<Rightarrow> [h])
      in if length origins > 1 then ''('' @ joinWith '' '' origins @ '')''
         else (let t = trim (joinWith '' '' origins) in if t \<noteq> [] then t else ''localhost''))"

definition generateReceivedHeader :: "('h, 'c) ext \<Rightarrow> 'h envelope \<Rightarrow> string \<Rightarrow> string" where
  "generateReceivedHeader X envelope hostname =
     (let key = ''Received'';
          origin = originOf envelope;
          originhost = originhostOf envelope;
          val = ''from'' @
                (if truthy (e_transhost envelope) then '' '' @ the (e_transhost envelope) else []) @
                '' '' @ origin @
                (if originhost \<noteq> None then CRLF else []) @
                (if truthy (e_user envelope)
                 then '' (Authenticated sender: '' @ the (e_user envelope) @ '')'' @ CRLF
                 else (if originhost = None then CRLF else [])) @
                '' by '' @ hostname @
                '' with '' @ e_transtype envelope @
                '' id '' @ e_id envelope @
                (if length (e_to envelope) = 1
                 then CRLF @ '' for <'' @ hd (e_to envelope) @ ''>'' else []) @
                (case e_tls envelope of
                   None \<Rightarrow> []
                 | Some (version, cipher) \<Rightarrow>
                     CRLF @ '' (version='' @ version @ '' cipher='' @ cipher @ '')'') @
                '';'' @ CRLF @
                '' '' @ replaceFirst ''GMT'' ''+0000'' (x_toUTCString X (e_time envelope))
      in key @ '': '' @ val)"

section \<open>message:queue\<close>

text \<open>
  \<open>Buffer.concat(list, totalLength)\<close>: the chunks in order, cut or filled with zero bytes
  to the given length. A buffer is a string of bytes; \<open>Buffer.from\<close> of the two header
  lines is taken as the text itself, which it is for ASCII.
\<close>

definition bufferConcat :: "string list \<Rightarrow> nat \<Rightarrow> string" where
  "bufferConcat chunks totalLength =
     take totalLength (concat chunks) @ replicate (totalLength - length (concat chunks)) (CHR 0x00)"

definition sentFolder :: string where
  "sentFolder = CHR 0x5C # ''Sent''"

definition seenFlag :: string where
  "seenFlag = CHR 0x5C # ''Seen''"

definition message_queue ::
  "('h, 'c) ext \<Rightarrow> config \<Rightarrow> (nat \<rightharpoonup> user) \<times> io \<Rightarrow> 'h envelope \<Rightarrow>
     ((nat \<rightharpoonup> user) \<times> io) \<times> completion" where
  "message_queue X cfg st envelope =
     (let users = fst st; world = snd st in
      if \<not> checkInterface cfg (e_interface envelope) then ((users, world), Next)
      else (case getUser X users (e_oid envelope) (e_user envelope) of
              (Inl err, users') \<Rightarrow> ((users', world), NextErr err)
            | (Inr u, users') \<Rightarrow>
                if truthyNum (u_quota u) \<and> numGreater (u_storageUsed u) (u_quota u)
                then ((users', world), Next)
                else
                  let hostname = (if truthy (c_hostname cfg) then the (c_hostname cfg)
                                  else x_osHostname X);
                      chunk0 = ''Return-Path: '' @ e_from envelope @ CRLF @
                               generateReceivedHeader X envelope hostname @ CRLF;
                      chunk1 = x_build X (e_headers envelope);
                      stream = ''message '' @ e_id envelope;
                      world1 = world\<lparr>opened := opened world @ [stream]\<rparr>
                  in (case x_readStream X stream of
                        Inl err \<Rightarrow> ((users', world1), NextErr err)
                      | Inr body \<Rightarrow>
                          let chunks = [chunk0, chunk1] @ body;
                              chunklen = length chunk0 + length chunk1 + sum_list (map length body);
                              request = \<lparr>ar_user = u_id u, ar_specialUse = sentFolder,
                                         ar_source = ''SMTP'', ar_from = e_from envelope,
                                         ar_to = e_to envelope,
                                         ar_origin = e_remoteAddress envelope,
                                         ar_originhost = e_clientHostname envelope,
                                         ar_transhost = e_hostNameAppearsAs envelope,
                                         ar_transtype = e_transmissionType envelope,
                                         ar_time = x_now X, ar_date = False,
                                         ar_flags = [seenFlag],
                                         ar_raw = bufferConcat chunks chunklen,
                                         ar_skipExisting = True\<rparr>
                          in ((users', world1\<lparr>archived := archived world1 @ [request]\<rparr>), Next))))"

section \<open>sender:headers\<close>

definition sender_headers ::
  "('h, 'c) ext \<Rightarrow> config \<Rightarrow> 'h delivery \<Rightarrow> 'h delivery \<times> completion" where
  "sender_headers X cfg delivery =
     (if \<not> truthy (d_from delivery) \<or> d_interface delivery \<noteq> c_forwarder cfg
      then (delivery, Next)
      else
        let from = (if truthy (d_from delivery) then the (d_from delivery) else []);
            fromDomain = toLowerCase (substrFrom from (lastIndexOf CHR ''@'' from + 1));
            srsDomain = c_rewriteDomain cfg;
            h1 = x_add X (d_headers delivery) ''X-Original-Sender'' from;
            h2 = x_add X h1 ''X-Zone-Forwarded-For'' from;
            h3 = x_add X h2 ''X-Zone-Forwarded-To'' (d_to delivery);
            delivery1 = delivery\<lparr>d_headers := h3\<rparr>
        in (case x_srsRewrite X (substr from 0 (lastIndexOf CHR ''@'' from)) fromDomain of
              Inl E \<Rightarrow> (delivery1, Next)
            | Inr rewritten \<Rightarrow>
                (delivery1\<lparr>d_from := Some (rewritten @ ''@'' @ srsDomain)\<rparr>, Next)))"

section \<open>sender:fetch\<close>

text \<open>The hook is added only when \<open>app.config.mx\<close> is truthy.\<close>

definition sender_fetch_added :: "config \<Rightarrow> bool" where
  "sender_fetch_added cfg = truthyArg (c_mx cfg)"

definition sender_fetch ::
  "('h, 'c) ext \<Rightarrow> config \<Rightarrow> 'h delivery \<Rightarrow> 'h delivery \<times> completion" where
  "sender_fetch X cfg delivery =
     (case x_findAddress X (normalizeAddress (x_normalizeNFC X) (x_toUnicode X) (Str (d_to delivery))) None of
        Inl err \<Rightarrow> (delivery, NextErr err)
      | Inr addressData \<Rightarrow>
          if \<not> addressData then (delivery, Next)
          else (delivery\<lparr>d_mx := Some (if truthyArg (c_mx cfg) then concatArg (the (c_mx cfg))
                                         else []),
                          d_mxPort := c_mxPort cfg,
                          d_useLMTP := True,
                          d_zoneAddress := c_zoneAddress cfg\<rparr>, Next))"

section \<open>A concrete host, for evaluating the hooks\<close>

text \<open>
  A small instance of the collaborators: the header collection is a list of key and value
  lines, the stores hold the users \<open>alice\<close> and \<open>bob\<close> and the address
  \<open>alice@example.com\<close>, the counter counts per key and refuses above the ceiling.
\<close>

definition alice :: user where
  "alice = \<lparr>u_id = ''u1'', u_username = ''alice'', u_address = ''alice@example.com'',
            u_quota = Some 0, u_storageUsed = Some 1, u_recipients = Some 2\<rparr>"

definition bob :: user where
  "bob = \<lparr>u_id = ''u2'', u_username = ''bob'', u_address = ''bob@example.com'',
          u_quota = Some 100, u_storageUsed = Some 250, u_recipients = None\<rparr>"

fun lookupHeader :: "(string \<times> string) list \<Rightarrow> string \<Rightarrow> string" where
  "lookupHeader [] k = []"
| "lookupHeader ((k', v) # hs) k = (if toLowerCase k' = toLowerCase k then v else lookupHeader hs k)"

definition updateHeader :: "(string \<times> string) list \<Rightarrow> string \<Rightarrow> string \<Rightarrow> (string \<times> string) list" where
  "updateHeader hs k v = (k, v) # filter (\<lambda>kv. toLowerCase (fst kv) \<noteq> toLowerCase k) hs"

definition host :: "((string \<times> string) list, string \<Rightarrow> int) ext" where
  "host = \<lparr>
     x_authenticate = (\<lambda>username password ip.
        if username = ''Alice'' \<and> password = ''secret''
        then Inr (Some \<lparr>r_username = ''alice'', r_scope = ''smtp'', r_enabled2fa = False\<rparr>)
        else if username = ''root''
        then Inr (Some \<lparr>r_username = ''root'', r_scope = ''master'', r_enabled2fa = True\<rparr>)
        else Inr None),
     x_findUser = (\<lambda>username. if username = ''alice'' then Inr (Some alice)
                               else if username = ''bob'' then Inr (Some bob) else Inr None),
     x_findAddress = (\<lambda>addr owner. Inr (addr = ''alice@example.com'')),
     x_ttlcounter = (\<lambda>store key incr ceiling.
        (Inr \<lparr>cr_success = (store key + incr \<le> ceiling), cr_value = store key + incr,
              cr_ttl = 5400\<rparr>,
         store(key := store key + incr))),
     x_addressparser = (\<lambda>s. [\<lparr>a_name = None, a_address = Some s, a_group = None\<rparr>]),
     x_convertAddresses = (\<lambda>xs. joinWith '', '' (map (\<lambda>a. the (a_address a)) xs)),
     x_getFirst = lookupHeader,
     x_update = updateHeader,
     x_add = (\<lambda>hs k v. hs @ [(k, v)]),
     x_build = (\<lambda>hs. concat (map (\<lambda>kv. fst kv @ '': '' @ snd kv @ CRLF) hs) @ CRLF),
     x_readStream = (\<lambda>stream. Inr [''Hello'', ''World'']),
     x_srsRewrite = (\<lambda>localPart domain. Inr (''SRS0=xxxx=AB='' @ domain @ ''='' @ localPart)),
     x_normalizeNFC = normalizeNFCPlain,
     x_toUnicode = toUnicodePlain,
     x_toUTCString = (\<lambda>t. ''Wed, 03 Aug 2016 11:32:07 GMT''),
     x_now = 1470223927000,
     x_osHostname = ''mx.example.net''\<rparr>"

definition cfg0 :: config where
  "cfg0 = \<lparr>c_interfaces = None, c_forwarder = Some ''forwarder'',
           c_rewriteDomain = ''relay.example.net'', c_mx = Some (S ''lmtp.example.net''),
           c_mxPort = Some 24, c_zoneAddress = Some ''local'', c_hostname = None\<rparr>"

definition envelope0 :: "(string \<times> string) list envelope" where
  "envelope0 = \<lparr>e_oid = 7, e_id = ''abc123'', e_interface = ''feeder'',
                e_from = ''mallory@example.com'', e_to = [''bob@example.org''],
                e_user = Some ''alice'', e_origin = Some ''203.0.113.5'', e_originhost = None,
                e_transhost = Some ''mail.example.com'', e_transtype = ''ESMTP'',
                e_tls = None, e_time = 1470223927000,
                e_headers = [(''From'', ''carol@example.com''), (''Subject'', ''hi'')],
                e_remoteAddress = Some ''203.0.113.5'', e_clientHostname = None,
                e_hostNameAppearsAs = Some ''mail.example.com'',
                e_transmissionType = Some ''ESMTP''\<rparr>"

definition session0 :: session where
  "session0 = \<lparr>s_oid = 3, s_interface = ''feeder'', s_user = Some ''alice'',
               s_remoteAddress = ''203.0.113.5'', s_envelopeId = ''abc123''\<rparr>"

definition delivery0 :: "(string \<times> string) list delivery" where
  "delivery0 = \<lparr>d_id = ''abc123'', d_seq = ''001'', d_interface = Some ''forwarder'',
                d_from = Some ''Carol@Example.COM'', d_to = ''alice@example.com'',
                d_headers = [(''Subject'', ''hi'')], d_mx = None, d_mxPort = None,
                d_useLMTP = False, d_zoneAddress = None\<rparr>"

definition io0 :: io where
  "io0 = \<lparr>opened = [], archived = []\<rparr>"

definition counters0 :: "string \<Rightarrow> int" where
  "counters0 key = 0"

section \<open>Evaluation of the concrete host\<close>

lemmas string_defs =
  canonicalAddress_def localPart_def domainPart_def trim_def toLowerCase_def lowerChar_def
  isUpper_def substr_def substrFrom_def isWhiteSpace_def isLineTerminator_def

lemma canonical_alice [simp]:
  "canonicalAddress normalizeNFCPlain toUnicodePlain ''alice@example.com'' = ''alice@example.com''"
  by (simp add: string_defs normalizeNFCPlain_def toUnicodePlain_def)

lemma canonical_bob [simp]:
  "canonicalAddress normalizeNFCPlain toUnicodePlain ''bob@example.org'' = ''bob@example.org''"
  by (simp add: string_defs normalizeNFCPlain_def toUnicodePlain_def)

lemma canonical_mallory [simp]:
  "canonicalAddress normalizeNFCPlain toUnicodePlain ''mallory@example.com'' = ''mallory@example.com''"
  by (simp add: string_defs normalizeNFCPlain_def toUnicodePlain_def)

lemma canonical_carol [simp]:
  "canonicalAddress normalizeNFCPlain toUnicodePlain ''carol@example.com'' = ''carol@example.com''"
  by (simp add: string_defs normalizeNFCPlain_def toUnicodePlain_def)

lemma checkInterface_cfg0 [simp]: "checkInterface cfg0 iface"
  by (simp add: checkInterface_def allInterfaces_def interfaces_def cfg0_def)

section \<open>The interface allow-list\<close>

text \<open>
  The four hooks of the submission side pass an object of an interface that the plugin does
  not cover through as it is. The properties below are about covered interfaces.
\<close>

lemma smtp_auth_other_interface:
  assumes "\<not> checkInterface cfg (s_interface sess)"
  shows "smtp_auth X cfg au sess = (au, Next)"
  using assms by (simp add: smtp_auth_def)

lemma message_headers_other_interface:
  assumes "\<not> checkInterface cfg (e_interface envelope)"
  shows "message_headers X cfg users envelope = (users, envelope, Next)"
  using assms by (simp add: message_headers_def)

lemma smtp_rcpt_to_other_interface:
  assumes "\<not> checkInterface cfg (s_interface sess)"
  shows "smtp_rcpt_to X cfg (users, counters) addr sess = ((users, counters), Next)"
  using assms by (simp add: smtp_rcpt_to_def)

lemma message_queue_other_interface:
  assumes "\<not> checkInterface cfg (e_interface envelope)"
  shows "message_queue X cfg (users, world) envelope = ((users, world), Next)"
  using assms by (simp add: message_queue_def)

section \<open>sender:headers without an envelope sender\<close>

text \<open>
  Claim C10. When the envelope sender of the delivery is missing or the empty string,
  \<open>sender:headers\<close> returns the delivery as it received it and calls \<open>next()\<close>: no trace
  header is added and the sender is not rewritten, whatever the interface of the delivery,
  the forwarder included, and whatever the header collection and the SRS rewriter do.
\<close>

theorem sender_headers_no_sender_unchanged:
  assumes "d_from delivery = None \<or> d_from delivery = Some []"
  shows "sender_headers X cfg delivery = (delivery, Next)"
  using assms by (auto simp: sender_headers_def)

theorem sender_headers_no_sender_unchanged_witness:
  "d_interface (delivery0\<lparr>d_from := Some []\<rparr>) = c_forwarder cfg0 \<and>
   sender_headers host cfg0 (delivery0\<lparr>d_from := Some []\<rparr>) = (delivery0\<lparr>d_from := Some []\<rparr>, Next)"
  using sender_headers_no_sender_unchanged [of "delivery0\<lparr>d_from := Some []\<rparr>" host cfg0]
  by (simp add: delivery0_def cfg0_def)

section \<open>The routing override of sender:fetch\<close>

text \<open>
  Claim C9. The hook \<open>sender:fetch\<close> exists when an MX override is configured. When the
  address directory answers the query for the canonical recipient address, the hook calls
  \<open>next()\<close>; if the address was found, the delivery gets the configured MX hosts, the
  configured MX port, LMTP and the configured zone address, and every other field stays;
  if it was not found, the delivery is returned as it was.
\<close>

theorem sender_fetch_overrides_local_only:
  assumes "sender_fetch_added cfg"
    and "x_findAddress X (normalizeAddress (x_normalizeNFC X) (x_toUnicode X) (Str (d_to delivery))) None = Inr found"
  shows "sender_fetch X cfg delivery =
           (if found
            then (delivery\<lparr>d_mx := Some (concatArg (the (c_mx cfg))), d_mxPort := c_mxPort cfg,
                            d_useLMTP := True, d_zoneAddress := c_zoneAddress cfg\<rparr>, Next)
            else (delivery, Next))"
  using assms by (simp add: sender_fetch_def sender_fetch_added_def)

theorem sender_fetch_overrides_local_only_witness:
  "sender_fetch host cfg0 delivery0 =
     (delivery0\<lparr>d_mx := Some [''lmtp.example.net''], d_mxPort := Some 24,
                 d_useLMTP := True, d_zoneAddress := Some ''local''\<rparr>, Next) \<and>
   sender_fetch host cfg0 (delivery0\<lparr>d_to := ''bob@example.org''\<rparr>) =
     (delivery0\<lparr>d_to := ''bob@example.org''\<rparr>, Next)"
proof -
  have added: "sender_fetch_added cfg0"
    by (simp add: sender_fetch_added_def cfg0_def)
  have local: "x_findAddress host (normalizeAddress (x_normalizeNFC host) (x_toUnicode host) (Str (d_to delivery0))) None
                 = Inr True"
    by (simp add: host_def delivery0_def)
  have remote: "x_findAddress host (normalizeAddress (x_normalizeNFC host) (x_toUnicode host)
                  (Str (d_to (delivery0\<lparr>d_to := ''bob@example.org''\<rparr>)))) None = Inr False"
    by (simp add: host_def)
  show ?thesis
    using sender_fetch_overrides_local_only [OF added local]
      sender_fetch_overrides_local_only [OF added remote]
    by (simp add: cfg0_def)
qed

section \<open>The answers of smtp:auth\<close>

text \<open>
  Claim C7. On an interface the plugin covers, when \<open>authenticate\<close> answers without an
  error, the hook ends with the error \<open>Authentication failed\<close>, response code 535, exactly
  when the answer is empty (the credentials were not verified, or no account was found) or
  is an account of scope \<open>master\<close> with two-factor authentication enabled. In every other
  case the hook calls \<open>next()\<close> and the username of the authentication is the username of
  the answer.
\<close>

theorem smtp_auth_denies_535:
  assumes "checkInterface cfg (s_interface sess)"
    and "x_authenticate X (au_username au) (au_password au) (s_remoteAddress sess) = Inr res"
  shows "(snd (smtp_auth X cfg au sess) = NextErr authFailed) =
           (res = None \<or> (r_scope (the res) = ''master'' \<and> r_enabled2fa (the res))) \<and>
         (if res = None \<or> (r_scope (the res) = ''master'' \<and> r_enabled2fa (the res))
          then smtp_auth X cfg au sess = (au, NextErr authFailed)
          else smtp_auth X cfg au sess = (au\<lparr>au_username := r_username (the res)\<rparr>, Next)) \<and>
         responseCode authFailed = Some 535"
  using assms by (cases res) (auto simp: smtp_auth_def authFailed_def)

theorem smtp_auth_denies_535_witness:
  "smtp_auth host cfg0 \<lparr>au_username = ''Alice'', au_password = ''secret''\<rparr> session0 =
     (\<lparr>au_username = ''alice'', au_password = ''secret''\<rparr>, Next) \<and>
   smtp_auth host cfg0 \<lparr>au_username = ''root'', au_password = ''secret''\<rparr> session0 =
     (\<lparr>au_username = ''root'', au_password = ''secret''\<rparr>, NextErr authFailed) \<and>
   smtp_auth host cfg0 \<lparr>au_username = ''Alice'', au_password = ''wrong''\<rparr> session0 =
     (\<lparr>au_username = ''Alice'', au_password = ''wrong''\<rparr>, NextErr authFailed)"
proof -
  let ?ok = "\<lparr>au_username = ''Alice'', au_password = ''secret''\<rparr>"
  let ?root = "\<lparr>au_username = ''root'', au_password = ''secret''\<rparr>"
  let ?bad = "\<lparr>au_username = ''Alice'', au_password = ''wrong''\<rparr>"
  have a: "x_authenticate host (au_username ?ok) (au_password ?ok) (s_remoteAddress session0)
             = Inr (Some \<lparr>r_username = ''alice'', r_scope = ''smtp'', r_enabled2fa = False\<rparr>)"
    by (simp add: host_def)
  have b: "x_authenticate host (au_username ?root) (au_password ?root) (s_remoteAddress session0)
             = Inr (Some \<lparr>r_username = ''root'', r_scope = ''master'', r_enabled2fa = True\<rparr>)"
    by (simp add: host_def)
  have c: "x_authenticate host (au_username ?bad) (au_password ?bad) (s_remoteAddress session0)
             = Inr None"
    by (simp add: host_def)
  show ?thesis
    using smtp_auth_denies_535 [OF checkInterface_cfg0 a]
      smtp_auth_denies_535 [OF checkInterface_cfg0 b]
      smtp_auth_denies_535 [OF checkInterface_cfg0 c]
    by simp
qed

text \<open>An error of the store is passed on as it is.\<close>

lemma smtp_auth_propagates:
  assumes "checkInterface cfg (s_interface sess)"
    and "x_authenticate X (au_username au) (au_password au) (s_remoteAddress sess) = Inl err"
  shows "smtp_auth X cfg au sess = (au, NextErr err)"
  using assms by (simp add: smtp_auth_def)

lemma getUser_alice_session [simp]:
  "getUser host Map.empty (s_oid session0) (s_user session0) = (Inr alice, [3 \<mapsto> alice])"
  by (simp add: getUser_def host_def session0_def)

lemma getUser_alice_envelope [simp]:
  "getUser host Map.empty (e_oid envelope0) (e_user envelope0) = (Inr alice, [7 \<mapsto> alice])"
  by (simp add: getUser_def host_def envelope0_def)

section \<open>The recipient rate gate\<close>

text \<open>
  \<open>mathRoundDiv a b\<close> is the integer \<open>m\<close> with \<open>m - 1/2 \<le> a / b < m + 1/2\<close>: the nearest
  one, the upper one of two that are equally near.
\<close>

lemma mathRoundDiv_bounds:
  assumes "0 < b"
  shows "2 * (b * mathRoundDiv a b) - b \<le> 2 * a \<and> 2 * a < 2 * (b * mathRoundDiv a b) + b"
proof -
  have "2 * a + b = (2 * b) * mathRoundDiv a b + (2 * a + b) mod (2 * b)"
    by (simp add: mathRoundDiv_def)
  moreover have "0 \<le> (2 * a + b) mod (2 * b)" and "(2 * a + b) mod (2 * b) < 2 * b"
    using assms by simp_all
  ultimately show ?thesis
    by (simp add: algebra_simps)
qed

lemma mathRoundDiv_unique:
  assumes "0 < b" and "2 * (b * m) - b \<le> 2 * a" and "2 * a < 2 * (b * m) + b"
  shows "mathRoundDiv a b = m"
proof -
  let ?r = "mathRoundDiv a b"
  from mathRoundDiv_bounds [OF assms(1), of a]
  have lo: "2 * (b * ?r) - b \<le> 2 * a" and hi: "2 * a < 2 * (b * ?r) + b"
    by simp_all
  have "b * ?r < b * (m + 1)"
    using lo assms(3) by (simp add: algebra_simps)
  then have "?r < m + 1"
    using assms(1) by (simp add: mult_less_cancel_left_pos)
  moreover have "b * m < b * (?r + 1)"
    using hi assms(2) by (simp add: algebra_simps)
  then have "m < ?r + 1"
    using assms(1) by (simp add: mult_less_cancel_left_pos)
  ultimately show ?thesis by simp
qed

text \<open>The decimal text of an integer denotes that integer.\<close>

lemma of_char_digitChar:
  assumes "d < 10"
  shows "of_char (digitChar d) = 48 + d"
proof -
  from assms have "d \<in> {0, 1, 2, 3, 4, 5, 6, 7, 8, 9}" by auto
  then show ?thesis
    by (auto simp: digitChar_def)
qed

lemma digitChar_not_minus:
  assumes "d < 10"
  shows "digitChar d \<noteq> CHR ''-''"
proof
  assume "digitChar d = CHR ''-''"
  then have "(of_char (digitChar d) :: nat) = 45" by simp
  with of_char_digitChar [OF assms] show False by simp
qed

lemma digitsValue_snoc: "digitsValue (s @ [c]) = 10 * digitsValue s + (of_char c - 48)"
  by (simp add: digitsValue_def)

lemma digitsValue_showNat: "digitsValue (showNat n) = n"
proof (induction n rule: showNat.induct)
  case (1 n)
  show ?case
  proof (cases "n < 10")
    case True
    then show ?thesis
      by (simp add: showNat.simps [of n] digitsValue_def of_char_digitChar)
  next
    case False
    with "1" have "digitsValue (showNat (n div 10)) = n div 10" by simp
    with False show ?thesis
      by (simp add: showNat.simps [of n] digitsValue_snoc of_char_digitChar)
  qed
qed

lemma showNat_starts_with_digit: "\<exists>c cs. showNat n = c # cs \<and> c \<noteq> CHR ''-''"
proof (induction n rule: showNat.induct)
  case (1 n)
  show ?case
  proof (cases "n < 10")
    case True
    then show ?thesis
      using digitChar_not_minus [of n] by (simp add: showNat.simps [of n])
  next
    case False
    with "1" obtain c cs where "showNat (n div 10) = c # cs" and "c \<noteq> CHR ''-''"
      by blast
    with False show ?thesis
      by (simp add: showNat.simps [of n])
  qed
qed

lemma decimalValue_showInt: "decimalValue (showInt i) = i"
proof (cases "i < 0")
  case True
  then show ?thesis
    by (simp add: decimalValue_def showInt_def digitsValue_showNat)
next
  case False
  then show ?thesis
    using showNat_starts_with_digit [of "nat i"]
    by (auto simp: decimalValue_def showInt_def digitsValue_showNat)
qed

text \<open>
  Claim C3. On an interface the plugin covers and for a resolved user: without a recipient
  cap (\<open>recipients\<close> missing or 0) the hook calls \<open>next()\<close> and the counter store is the one
  it was given; with a cap the store is the one after one call of the counter for the key
  \<open>wdr:\<close> and the user id, increment 1 and the cap as ceiling, and the hook calls \<open>next()\<close>
  when the counter reports success, ends with the limit error when it does not, and passes
  an error of the counter on. The limit error has response code 550; its message ends
  after \<open>account\<close> when the ttl is 0, and otherwise goes on with \<open>. Limit expires in\<close> and the
  ttl in seconds below 60, in rounded minutes below 3600, in rounded hours from there.
  The rounded minutes are the integer \<open>m\<close> with \<open>60 m - 30 \<le> ttl < 60 m + 30\<close>, the rounded
  hours the integer \<open>h\<close> with \<open>3600 h - 1800 \<le> ttl < 3600 h + 1800\<close>, and a number is
  written as the decimal text that denotes it.
\<close>

theorem smtp_rcpt_to_rate_gate:
  assumes "checkInterface cfg (s_interface sess)"
    and "getUser X users (s_oid sess) (s_user sess) = (Inr u, users')"
  shows "(if \<not> truthyNum (u_recipients u)
          then smtp_rcpt_to X cfg (users, counters) addr sess = ((users', counters), Next)
          else smtp_rcpt_to X cfg (users, counters) addr sess =
                 (case x_ttlcounter X counters (''wdr:'' @ u_id u) 1 (the (u_recipients u)) of
                    (Inl err, counters') \<Rightarrow> ((users', counters'), NextErr err)
                  | (Inr result, counters') \<Rightarrow>
                      ((users', counters'),
                       if cr_success result then Next
                       else NextErr (limitError (cr_ttl result))))) \<and>
         responseCode (limitError ttl) = Some 550 \<and>
         message (limitError ttl) =
           ''You reached a daily sending limit for your account'' @
           (if ttl = 0 then []
            else ''. Limit expires in '' @
                 (if ttl < 60 then showInt ttl @ '' seconds''
                  else if ttl < 3600 then showInt (mathRoundDiv ttl 60) @ '' minutes''
                  else showInt (mathRoundDiv ttl 3600) @ '' hours'')) \<and>
         60 * mathRoundDiv ttl 60 - 30 \<le> ttl \<and> ttl < 60 * mathRoundDiv ttl 60 + 30 \<and>
         3600 * mathRoundDiv ttl 3600 - 1800 \<le> ttl \<and> ttl < 3600 * mathRoundDiv ttl 3600 + 1800 \<and>
         decimalValue (showInt n) = n"
proof -
  have hook: "if \<not> truthyNum (u_recipients u)
          then smtp_rcpt_to X cfg (users, counters) addr sess = ((users', counters), Next)
          else smtp_rcpt_to X cfg (users, counters) addr sess =
                 (case x_ttlcounter X counters (''wdr:'' @ u_id u) 1 (the (u_recipients u)) of
                    (Inl err, counters') \<Rightarrow> ((users', counters'), NextErr err)
                  | (Inr result, counters') \<Rightarrow>
                      ((users', counters'),
                       if cr_success result then Next
                       else NextErr (limitError (cr_ttl result))))"
    using assms by (auto simp: smtp_rcpt_to_def split: prod.splits sum.splits)
  have wording: "responseCode (limitError ttl) = Some 550 \<and>
         message (limitError ttl) =
           ''You reached a daily sending limit for your account'' @
           (if ttl = 0 then []
            else ''. Limit expires in '' @
                 (if ttl < 60 then showInt ttl @ '' seconds''
                  else if ttl < 3600 then showInt (mathRoundDiv ttl 60) @ '' minutes''
                  else showInt (mathRoundDiv ttl 3600) @ '' hours''))"
    by (simp add: limitError_def ttlHuman_def)
  have minutes: "60 * mathRoundDiv ttl 60 - 30 \<le> ttl \<and> ttl < 60 * mathRoundDiv ttl 60 + 30"
    using mathRoundDiv_bounds [of 60 ttl] by simp
  have hours: "3600 * mathRoundDiv ttl 3600 - 1800 \<le> ttl \<and>
               ttl < 3600 * mathRoundDiv ttl 3600 + 1800"
    using mathRoundDiv_bounds [of 3600 ttl] by simp
  show ?thesis
    using hook wording minutes hours decimalValue_showInt [of n] by blast
qed

lemma getUser_bob_session [simp]:
  "getUser host Map.empty (s_oid (session0\<lparr>s_user := Some ''bob''\<rparr>))
     (s_user (session0\<lparr>s_user := Some ''bob''\<rparr>)) = (Inr bob, [3 \<mapsto> bob])"
  by (simp add: getUser_def host_def session0_def)

theorem smtp_rcpt_to_rate_gate_witness:
  "smtp_rcpt_to host cfg0 (Map.empty, \<lambda>key. 2) emptyObj session0 =
     (([3 \<mapsto> alice], (\<lambda>key. 2)(''wdr:u1'' := 3)), NextErr (limitError 5400)) \<and>
   smtp_rcpt_to host cfg0 (Map.empty, \<lambda>key. 1) emptyObj session0 =
     (([3 \<mapsto> alice], (\<lambda>key. 1)(''wdr:u1'' := 2)), Next) \<and>
   smtp_rcpt_to host cfg0 (Map.empty, \<lambda>key. 2) emptyObj (session0\<lparr>s_user := Some ''bob''\<rparr>) =
     (([3 \<mapsto> bob], \<lambda>key. 2), Next) \<and>
   message (limitError 5400) =
     ''You reached a daily sending limit for your account. Limit expires in 2 hours'' \<and>
   message (limitError 5399) =
     ''You reached a daily sending limit for your account. Limit expires in 1 hours'' \<and>
   message (limitError 86400) =
     ''You reached a daily sending limit for your account. Limit expires in 24 hours'' \<and>
   message (limitError 3599) =
     ''You reached a daily sending limit for your account. Limit expires in 60 minutes'' \<and>
   message (limitError 90) =
     ''You reached a daily sending limit for your account. Limit expires in 2 minutes'' \<and>
   message (limitError 89) =
     ''You reached a daily sending limit for your account. Limit expires in 1 minutes'' \<and>
   message (limitError 59) =
     ''You reached a daily sending limit for your account. Limit expires in 59 seconds'' \<and>
   message (limitError 0) = ''You reached a daily sending limit for your account''"
proof -
  have cap: "truthyNum (u_recipients alice)" and nocap: "\<not> truthyNum (u_recipients bob)"
    by (simp_all add: alice_def bob_def)
  have refused: "x_ttlcounter host (\<lambda>key. 2) (''wdr:'' @ u_id alice) 1 (the (u_recipients alice))
                   = (Inr \<lparr>cr_success = False, cr_value = 3, cr_ttl = 5400\<rparr>,
                      (\<lambda>key. 2)(''wdr:u1'' := 3))"
    by (simp add: host_def alice_def)
  have counted: "x_ttlcounter host (\<lambda>key. 1) (''wdr:'' @ u_id alice) 1 (the (u_recipients alice))
                   = (Inr \<lparr>cr_success = True, cr_value = 2, cr_ttl = 5400\<rparr>,
                      (\<lambda>key. 1)(''wdr:u1'' := 2))"
    by (simp add: host_def alice_def)
  have numbers: "showInt (mathRoundDiv 5400 3600) = ''2''" "showInt (mathRoundDiv 5399 3600) = ''1''"
    "showInt (mathRoundDiv 86400 3600) = ''24''" "showInt (mathRoundDiv 3599 60) = ''60''"
    "showInt (mathRoundDiv 90 60) = ''2''" "showInt (mathRoundDiv 89 60) = ''1''"
    "showInt 59 = ''59''"
    by (simp_all add: showInt_def mathRoundDiv_def showNat.simps digitChar_def)
  have deny: "smtp_rcpt_to host cfg0 (Map.empty, \<lambda>key. 2) emptyObj session0 =
     (([3 \<mapsto> alice], (\<lambda>key. 2)(''wdr:u1'' := 3)), NextErr (limitError 5400))"
    and hrs: "message (limitError 5400) =
     ''You reached a daily sending limit for your account. Limit expires in 2 hours''"
    using smtp_rcpt_to_rate_gate [OF checkInterface_cfg0 getUser_alice_session,
        of "\<lambda>key. 2" emptyObj 5400] cap refused numbers
    by simp_all
  have allow: "smtp_rcpt_to host cfg0 (Map.empty, \<lambda>key. 1) emptyObj session0 =
     (([3 \<mapsto> alice], (\<lambda>key. 1)(''wdr:u1'' := 2)), Next)"
    using smtp_rcpt_to_rate_gate [OF checkInterface_cfg0 getUser_alice_session,
        of "\<lambda>key. 1" emptyObj 0] cap counted
    by simp
  have free: "smtp_rcpt_to host cfg0 (Map.empty, \<lambda>key. 2) emptyObj
                (session0\<lparr>s_user := Some ''bob''\<rparr>) = (([3 \<mapsto> bob], \<lambda>key. 2), Next)"
    using smtp_rcpt_to_rate_gate [OF checkInterface_cfg0 getUser_bob_session,
        of "\<lambda>key. 2" emptyObj 0] nocap
    by simp
  have texts: "message (limitError 5399) =
     ''You reached a daily sending limit for your account. Limit expires in 1 hours''"
    "message (limitError 86400) =
     ''You reached a daily sending limit for your account. Limit expires in 24 hours''"
    "message (limitError 3599) =
     ''You reached a daily sending limit for your account. Limit expires in 60 minutes''"
    "message (limitError 90) =
     ''You reached a daily sending limit for your account. Limit expires in 2 minutes''"
    "message (limitError 89) =
     ''You reached a daily sending limit for your account. Limit expires in 1 minutes''"
    "message (limitError 59) =
     ''You reached a daily sending limit for your account. Limit expires in 59 seconds''"
    "message (limitError 0) = ''You reached a daily sending limit for your account''"
    using smtp_rcpt_to_rate_gate [OF checkInterface_cfg0 getUser_alice_session, THEN conjunct2,
        THEN conjunct2, THEN conjunct1, of 5399]
      smtp_rcpt_to_rate_gate [OF checkInterface_cfg0 getUser_alice_session, THEN conjunct2,
        THEN conjunct2, THEN conjunct1, of 86400]
      smtp_rcpt_to_rate_gate [OF checkInterface_cfg0 getUser_alice_session, THEN conjunct2,
        THEN conjunct2, THEN conjunct1, of 3599]
      smtp_rcpt_to_rate_gate [OF checkInterface_cfg0 getUser_alice_session, THEN conjunct2,
        THEN conjunct2, THEN conjunct1, of 90]
      smtp_rcpt_to_rate_gate [OF checkInterface_cfg0 getUser_alice_session, THEN conjunct2,
        THEN conjunct2, THEN conjunct1, of 89]
      smtp_rcpt_to_rate_gate [OF checkInterface_cfg0 getUser_alice_session, THEN conjunct2,
        THEN conjunct2, THEN conjunct1, of 59]
      smtp_rcpt_to_rate_gate [OF checkInterface_cfg0 getUser_alice_session, THEN conjunct2,
        THEN conjunct2, THEN conjunct1, of 0]
    by (simp_all add: numbers)
  show ?thesis
    using deny hrs allow free texts by blast
qed

section \<open>The quota check of message:queue\<close>

text \<open>
  Claim C4, as the code has it. The hook skips the archive when the quota of the user is
  set (not missing, not 0) and the storage used is above it: then it opens no stream,
  submits nothing to the archive and calls \<open>next()\<close>.
\<close>

theorem message_queue_over_quota_skips:
  assumes "getUser X users (e_oid envelope) (e_user envelope) = (Inr u, users')"
    and "truthyNum (u_quota u)"
    and "numGreater (u_storageUsed u) (u_quota u)"
  shows "snd (message_queue X cfg (users, world) envelope) = Next \<and>
         snd (fst (message_queue X cfg (users, world) envelope)) = world"
  using assms by (simp add: message_queue_def)

theorem message_queue_over_quota_skips_witness:
  "snd (message_queue host cfg0 (Map.empty, io0)
          (envelope0\<lparr>e_oid := 8, e_user := Some ''bob''\<rparr>)) = Next \<and>
   snd (fst (message_queue host cfg0 (Map.empty, io0)
          (envelope0\<lparr>e_oid := 8, e_user := Some ''bob''\<rparr>))) = io0"
proof -
  let ?e = "envelope0\<lparr>e_oid := 8, e_user := Some ''bob''\<rparr>"
  have u: "getUser host Map.empty (e_oid ?e) (e_user ?e) = (Inr bob, [8 \<mapsto> bob])"
    by (simp add: getUser_def host_def)
  have q: "truthyNum (u_quota bob)" and g: "numGreater (u_storageUsed bob) (u_quota bob)"
    by (simp_all add: bob_def)
  show ?thesis
    using message_queue_over_quota_skips [OF u q g] by simp
qed

text \<open>
  Claim C4 as it is written fails for a quota of 0: \<open>alice\<close> has used 1 byte of a quota
  of 0, and the hook opens the stream of the message and submits one archive request.
\<close>

theorem message_queue_quota_zero_archives:
  "fst (getUser host Map.empty (e_oid envelope0) (e_user envelope0)) = Inr alice \<and>
   numGreater (u_storageUsed alice) (u_quota alice) \<and>
   opened (snd (fst (message_queue host cfg0 (Map.empty, io0) envelope0))) = [''message abc123''] \<and>
   length (archived (snd (fst (message_queue host cfg0 (Map.empty, io0) envelope0)))) = 1"
proof -
  have stream: "x_readStream host name = Inr [''Hello'', ''World'']" for name
    by (simp add: host_def)
  have ident: "e_id envelope0 = ''abc123''"
    by (simp add: envelope0_def)
  have quota: "u_quota alice = Some 0" "u_storageUsed alice = Some 1"
    by (simp_all add: alice_def)
  show ?thesis
    by (simp add: message_queue_def io0_def stream ident quota Let_def)
qed

section \<open>Failure of the identity resolution\<close>

lemma message_headers_propagates:
  assumes "checkInterface cfg (e_interface envelope)"
    and "getUser X users (e_oid envelope) (e_user envelope) = (Inl err, users')"
  shows "message_headers X cfg users envelope = (users', envelope, NextErr err)"
  using assms by (simp add: message_headers_def Let_def)

lemma message_queue_propagates:
  assumes "checkInterface cfg (e_interface envelope)"
    and "getUser X users (e_oid envelope) (e_user envelope) = (Inl err, users')"
  shows "message_queue X cfg (users, world) envelope = ((users', world), NextErr err)"
  using assms by (simp add: message_queue_def)

lemma smtp_rcpt_to_drops_error:
  assumes "checkInterface cfg (s_interface sess)"
    and "getUser X users (s_oid sess) (s_user sess) = (Inl err, users')"
  shows "smtp_rcpt_to X cfg (users, counters) addr sess = ((users', counters), Next)"
  using assms by (simp add: smtp_rcpt_to_def)

text \<open>
  Claim C1 at a session without an authenticated user, and at one whose user the store
  does not know: \<open>getUser\<close> fails with \<open>Insufficient user info\<close> and with \<open>User "nobody" was
  not found\<close>, the hooks \<open>message:headers\<close> and \<open>message:queue\<close> end with that error, and
  \<open>smtp:rcpt_to\<close> calls \<open>next()\<close> without it: the recipient is accepted.
\<close>

theorem smtp_rcpt_to_accepts_unresolved_identity:
  "fst (getUser host Map.empty (s_oid session0) None) = Inl (newError ''Insufficient user info'') \<and>
   fst (getUser host Map.empty (s_oid session0) (Some ''nobody''))
     = Inl (newError (''User '' @ dquote @ ''nobody'' @ dquote @ '' was not found'')) \<and>
   snd (smtp_rcpt_to host cfg0 (Map.empty, counters0) emptyObj (session0\<lparr>s_user := None\<rparr>))
     = Next \<and>
   snd (smtp_rcpt_to host cfg0 (Map.empty, counters0) emptyObj
          (session0\<lparr>s_user := Some ''nobody''\<rparr>)) = Next \<and>
   snd (snd (message_headers host cfg0 Map.empty (envelope0\<lparr>e_user := None\<rparr>)))
     = NextErr (newError ''Insufficient user info'') \<and>
   snd (message_queue host cfg0 (Map.empty, io0) (envelope0\<lparr>e_user := None\<rparr>))
     = NextErr (newError ''Insufficient user info'')"
  by (simp add: getUser_def smtp_rcpt_to_def message_headers_def message_queue_def host_def)

section \<open>The rewriting of the From: header\<close>

text \<open>
  Claim C2. On an interface the plugin covers, for a resolved user, when both queries of
  the address collection are answered, the From: header has a first address (\<open>obj\<close>, the
  empty object for a group) and its canonical form is not an address of the user: the hook
  calls \<open>next()\<close>; the envelope sender is first corrected (kept when it is an address of
  the user, the address of the user otherwise); the From: header is then rendered from
  \<open>obj\<close> with that corrected sender as its address; and the value read from the From:
  header at the start is stored under \<open>X-WildDuck-Original-From\<close>.
\<close>

theorem message_headers_rewrites_from:
  assumes "checkInterface cfg (e_interface envelope)"
    and "getUser X users (e_oid envelope) (e_user envelope) = (Inr u, users')"
    and "x_findAddress X (normalizeAddress (x_normalizeNFC X) (x_toUnicode X) (Str (e_from envelope))) (Some (u_id u))
           = Inr senderOk"
    and "headerFromObj X (e_headers envelope) = Some obj"
    and "x_findAddress X (normalizeAddress (x_normalizeNFC X) (x_toUnicode X) (argOf (a_address obj))) (Some (u_id u))
           = Inr False"
  shows "message_headers X cfg users envelope =
           (users',
            envelope\<lparr>e_from := (if senderOk then e_from envelope else u_address u),
                      e_headers :=
                        x_update X
                          (x_update X (e_headers envelope) ''From''
                             (x_convertAddresses X
                                [obj\<lparr>a_address :=
                                       Some (if senderOk then e_from envelope else u_address u)\<rparr>]))
                          ''X-WildDuck-Original-From''
                          (x_getFirst X (e_headers envelope) ''from'')\<rparr>,
            Next)"
  using assms by (simp add: message_headers_def Let_def)

theorem message_headers_rewrites_from_witness:
  "message_headers host cfg0 Map.empty envelope0 =
     ([7 \<mapsto> alice],
      envelope0\<lparr>e_from := ''alice@example.com'',
                 e_headers := [(''X-WildDuck-Original-From'', ''carol@example.com''),
                               (''From'', ''alice@example.com''), (''Subject'', ''hi'')]\<rparr>,
      Next)"
proof -
  let ?carol = "\<lparr>a_name = None, a_address = Some ''carol@example.com'', a_group = None\<rparr>"
  have hs: "e_headers envelope0 = [(''From'', ''carol@example.com''), (''Subject'', ''hi'')]"
    and sender: "e_from envelope0 = ''mallory@example.com''"
    by (simp_all add: envelope0_def)
  have first: "x_getFirst host (e_headers envelope0) ''from'' = ''carol@example.com''"
    unfolding hs by code_simp
  have parsed: "headerFromObj host (e_headers envelope0) = Some ?carol"
    by (simp add: headerFromObj_def first) (simp add: host_def)
  have q1: "x_findAddress host (normalizeAddress (x_normalizeNFC host) (x_toUnicode host) (Str (e_from envelope0)))
              (Some (u_id alice)) = Inr False"
    by (simp add: host_def sender)
  have q2: "x_findAddress host (normalizeAddress (x_normalizeNFC host) (x_toUnicode host) (argOf (a_address ?carol)))
              (Some (u_id alice)) = Inr False"
    by (simp add: host_def)
  have rendered: "x_convertAddresses host
                    [\<lparr>a_name = None, a_address = Some ''alice@example.com'', a_group = None\<rparr>]
                    = ''alice@example.com''"
    by (simp add: host_def)
  have upd: "x_update host (x_update host (e_headers envelope0) ''From'' ''alice@example.com'')
               ''X-WildDuck-Original-From'' ''carol@example.com''
             = [(''X-WildDuck-Original-From'', ''carol@example.com''),
                (''From'', ''alice@example.com''), (''Subject'', ''hi'')]"
    unfolding hs by code_simp
  have addr: "u_address alice = ''alice@example.com''"
    by (simp add: alice_def)
  show ?thesis
    using message_headers_rewrites_from [OF checkInterface_cfg0 getUser_alice_envelope q1 parsed q2]
    by (simp add: first rendered upd addr)
qed

section \<open>The layout of the Received header\<close>

lemma trim_bracketed: "trim (''['' @ s @ '']'') = ''['' @ s @ '']''"
  by (simp add: trim_def isWhiteSpace_def)

text \<open>A string without white space at its ends is its own trimmed form.\<close>

lemma trim_clean:
  assumes "s \<noteq> []" and "\<not> isWhiteSpace (hd s)" and "\<not> isWhiteSpace (last s)"
  shows "trim s = s"
proof -
  have front: "dropWhile isWhiteSpace s = s"
    using assms(2) by (simp add: dropWhile_eq_self_iff)
  have "dropWhile isWhiteSpace (rev s) = rev s"
    using assms(1,3) by (simp add: dropWhile_eq_self_iff hd_rev)
  with front show ?thesis
    by (simp add: trim_def)
qed

text \<open>Line 355: a client hostname counts when it is not empty and does not start with \<open>[\<close>.\<close>

lemma originhostOf_resolvable:
  assumes "e_originhost envelope = Some h" and "h \<noteq> []" and "hd h \<noteq> CHR ''[''"
  shows "originhostOf envelope = Some h"
  using assms by (cases h) (simp_all add: originhostOf_def)

lemma originhostOf_unresolved:
  assumes "case e_originhost envelope of None \<Rightarrow> True | Some s \<Rightarrow> s = [] \<or> hd s = CHR ''[''"
  shows "originhostOf envelope = None"
proof (cases "e_originhost envelope")
  case None
  then show ?thesis by (simp add: originhostOf_def)
next
  case (Some s)
  with assms show ?thesis by (cases s) (auto simp: originhostOf_def)
qed

lemma originOf_cases:
  "originOf envelope =
     (if truthy (e_origin envelope)
      then (case originhostOf envelope of
              Some h \<Rightarrow> ''(['' @ the (e_origin envelope) @ ''] '' @ h @ '')''
            | None \<Rightarrow> ''['' @ the (e_origin envelope) @ '']'')
      else (case originhostOf envelope of
              Some h \<Rightarrow> (if trim h = [] then ''localhost'' else trim h)
            | None \<Rightarrow> ''localhost''))"
proof -
  have empty: "trim [] = []"
    by (simp add: trim_def)
  show ?thesis
    using trim_bracketed [of "the (e_origin envelope)"]
    by (auto simp: originOf_def Let_def empty split: option.splits)
qed

text \<open>
  Claim C8. The header is a function of the envelope and the hostname (and of the
  rendering of dates); for the envelope of the example it is the text of the claim, with
  the date of the envelope, \<open>GMT\<close> replaced by \<open>+0000\<close>. A client hostname is resolvable
  when it is present, not empty and does not start with a bracket, and it has no white
  space at its ends. The origin is the bracketed address and the hostname in parentheses
  when the envelope has both, the bracketed address alone or the hostname alone when it has
  one of them, and \<open>localhost\<close> when it has neither; the header begins with \<open>Received: from\<close>,
  the EHLO name when there is one, and that origin.
\<close>

theorem generateReceivedHeader_layout:
  "(e_transhost envelope = Some ''mail.example.com'' \<and>
    e_origin envelope = Some ''203.0.113.5'' \<and>
    (case e_originhost envelope of None \<Rightarrow> True | Some s \<Rightarrow> s = [] \<or> hd s = CHR ''['') \<and>
    \<not> truthy (e_user envelope) \<and> e_to envelope = [''bob@example.org''] \<and>
    e_transtype envelope = ''ESMTP'' \<and> e_id envelope = ''abc123'' \<and> e_tls envelope = None
    \<longrightarrow> generateReceivedHeader X envelope hostname =
           ''Received: from mail.example.com [203.0.113.5]'' @ CRLF @
           '' by '' @ hostname @ '' with ESMTP id abc123'' @ CRLF @
           '' for <bob@example.org>;'' @ CRLF @
           '' '' @ replaceFirst ''GMT'' ''+0000'' (x_toUTCString X (e_time envelope))) \<and>
   (e_origin envelope = Some ip \<and> ip \<noteq> [] \<and>
    e_originhost envelope = Some h \<and> h \<noteq> [] \<and> hd h \<noteq> CHR ''[''
    \<longrightarrow> originOf envelope = ''(['' @ ip @ ''] '' @ h @ '')'') \<and>
   (e_origin envelope = Some ip \<and> ip \<noteq> [] \<and>
    (case e_originhost envelope of None \<Rightarrow> True | Some s \<Rightarrow> s = [] \<or> hd s = CHR ''['')
    \<longrightarrow> originOf envelope = ''['' @ ip @ '']'') \<and>
   (\<not> truthy (e_origin envelope) \<and>
    e_originhost envelope = Some h \<and> h \<noteq> [] \<and> hd h \<noteq> CHR ''['' \<and>
    \<not> isWhiteSpace (hd h) \<and> \<not> isWhiteSpace (last h)
    \<longrightarrow> originOf envelope = h) \<and>
   (\<not> truthy (e_origin envelope) \<and>
    (case e_originhost envelope of None \<Rightarrow> True | Some s \<Rightarrow> s = [] \<or> hd s = CHR ''['')
    \<longrightarrow> originOf envelope = ''localhost'') \<and>
   (\<exists>rest. generateReceivedHeader X envelope hostname =
      ''Received: from'' @
      (if truthy (e_transhost envelope) then '' '' @ the (e_transhost envelope) else []) @
      '' '' @ originOf envelope @ rest)"
proof -
  have example: "generateReceivedHeader X envelope hostname =
           ''Received: from mail.example.com [203.0.113.5]'' @ CRLF @
           '' by '' @ hostname @ '' with ESMTP id abc123'' @ CRLF @
           '' for <bob@example.org>;'' @ CRLF @
           '' '' @ replaceFirst ''GMT'' ''+0000'' (x_toUTCString X (e_time envelope))"
    if "e_transhost envelope = Some ''mail.example.com''"
      and "e_origin envelope = Some ''203.0.113.5''"
      and "case e_originhost envelope of None \<Rightarrow> True | Some s \<Rightarrow> s = [] \<or> hd s = CHR ''[''"
      and "\<not> truthy (e_user envelope)" and "e_to envelope = [''bob@example.org'']"
      and "e_transtype envelope = ''ESMTP''" and "e_id envelope = ''abc123''"
      and "e_tls envelope = None"
    using that originhostOf_unresolved [OF that(3)]
    by (simp add: generateReceivedHeader_def originOf_cases)
  have both: "originOf envelope = ''(['' @ ip @ ''] '' @ h @ '')''"
    if "e_origin envelope = Some ip" and "ip \<noteq> []"
      and "e_originhost envelope = Some h" and "h \<noteq> []" and "hd h \<noteq> CHR ''[''"
    using that originhostOf_resolvable [OF that(3,4,5)] by (simp add: originOf_cases)
  have address: "originOf envelope = ''['' @ ip @ '']''"
    if "e_origin envelope = Some ip" and "ip \<noteq> []"
      and "case e_originhost envelope of None \<Rightarrow> True | Some s \<Rightarrow> s = [] \<or> hd s = CHR ''[''"
    using that originhostOf_unresolved [OF that(3)] by (simp add: originOf_cases)
  have name: "originOf envelope = h"
    if "\<not> truthy (e_origin envelope)"
      and "e_originhost envelope = Some h" and "h \<noteq> []" and "hd h \<noteq> CHR ''[''"
      and "\<not> isWhiteSpace (hd h)" and "\<not> isWhiteSpace (last h)"
    using that originhostOf_resolvable [OF that(2,3,4)] trim_clean [OF that(3,5,6)]
    by (simp add: originOf_cases)
  have neither: "originOf envelope = ''localhost''"
    if "\<not> truthy (e_origin envelope)"
      and "case e_originhost envelope of None \<Rightarrow> True | Some s \<Rightarrow> s = [] \<or> hd s = CHR ''[''"
    using that originhostOf_unresolved [OF that(2)] by (simp add: originOf_cases)
  have place: "\<exists>rest. generateReceivedHeader X envelope hostname =
      ''Received: from'' @
      (if truthy (e_transhost envelope) then '' '' @ the (e_transhost envelope) else []) @
      '' '' @ originOf envelope @ rest"
    by (simp add: generateReceivedHeader_def Let_def)
  show ?thesis
    using example both address name neither place by blast
qed

theorem generateReceivedHeader_layout_witness:
  "generateReceivedHeader host (envelope0\<lparr>e_user := None\<rparr>) ''mx.example.net'' =
     ''Received: from mail.example.com [203.0.113.5]'' @ CRLF @
     '' by mx.example.net with ESMTP id abc123'' @ CRLF @
     '' for <bob@example.org>;'' @ CRLF @ '' Wed, 03 Aug 2016 11:32:07 +0000'' \<and>
   originOf (envelope0\<lparr>e_originhost := Some ''mail.example.com''\<rparr>)
     = ''([203.0.113.5] mail.example.com)'' \<and>
   originOf (envelope0\<lparr>e_originhost := Some ''[203.0.113.5]''\<rparr>) = ''[203.0.113.5]'' \<and>
   originOf (envelope0\<lparr>e_origin := None, e_originhost := Some ''mail.example.com''\<rparr>)
     = ''mail.example.com'' \<and>
   originOf (envelope0\<lparr>e_origin := None, e_originhost := Some ''[203.0.113.5]''\<rparr>)
     = ''localhost''"
proof -
  let ?plain = "envelope0\<lparr>e_user := None\<rparr>"
  let ?both = "envelope0\<lparr>e_originhost := Some ''mail.example.com''\<rparr>"
  let ?literal = "envelope0\<lparr>e_originhost := Some ''[203.0.113.5]''\<rparr>"
  let ?name = "envelope0\<lparr>e_origin := None, e_originhost := Some ''mail.example.com''\<rparr>"
  let ?none = "envelope0\<lparr>e_origin := None, e_originhost := Some ''[203.0.113.5]''\<rparr>"
  have date: "replaceFirst ''GMT'' ''+0000'' (x_toUTCString host t)
                = ''Wed, 03 Aug 2016 11:32:07 +0000''" for t
    by (simp add: host_def)
  have example: "e_transhost ?plain = Some ''mail.example.com'' \<and>
       e_origin ?plain = Some ''203.0.113.5'' \<and>
       (case e_originhost ?plain of None \<Rightarrow> True | Some s \<Rightarrow> s = [] \<or> hd s = CHR ''['') \<and>
       \<not> truthy (e_user ?plain) \<and> e_to ?plain = [''bob@example.org''] \<and>
       e_transtype ?plain = ''ESMTP'' \<and> e_id ?plain = ''abc123'' \<and> e_tls ?plain = None"
    by (simp add: envelope0_def)
  have one: "generateReceivedHeader host ?plain ''mx.example.net'' =
     ''Received: from mail.example.com [203.0.113.5]'' @ CRLF @
     '' by mx.example.net with ESMTP id abc123'' @ CRLF @
     '' for <bob@example.org>;'' @ CRLF @ '' Wed, 03 Aug 2016 11:32:07 +0000''"
    using generateReceivedHeader_layout [of ?plain host "''mx.example.net''", THEN conjunct1]
      example
    by (simp add: date)
  have two: "originOf ?both = ''([203.0.113.5] mail.example.com)''"
    using generateReceivedHeader_layout
      [of ?both _ _ "''203.0.113.5''" "''mail.example.com''", THEN conjunct2, THEN conjunct1]
    by (simp add: envelope0_def)
  have three: "originOf ?literal = ''[203.0.113.5]''"
    using generateReceivedHeader_layout
      [of ?literal _ _ "''203.0.113.5''", THEN conjunct2, THEN conjunct2, THEN conjunct1]
    by (simp add: envelope0_def)
  have four: "originOf ?name = ''mail.example.com''"
    using generateReceivedHeader_layout
      [of ?name _ _ _ "''mail.example.com''",
       THEN conjunct2, THEN conjunct2, THEN conjunct2, THEN conjunct1]
    by (simp add: envelope0_def isWhiteSpace_def)
  have five: "originOf ?none = ''localhost''"
    using generateReceivedHeader_layout
      [of ?none, THEN conjunct2, THEN conjunct2, THEN conjunct2, THEN conjunct2, THEN conjunct1]
    by (simp add: envelope0_def)
  show ?thesis
    using one two three four five by blast
qed

section \<open>Normalizing a normalized address\<close>

text \<open>
  Claim C6 at the address \<open>a+b\<close>, a line feed, \<open>@d\<close>, a text of ASCII characters: the line
  feed after the \<open>+\<close> keeps the regular expression of line 406 from matching, so the tag
  stays; \<open>trim\<close> then removes the line feed; and the second normalization cuts the tag that
  the first one left. The two results differ.
\<close>

theorem normalizeAddress_not_idempotent:
  "normalizeAddress normalizeNFCPlain toUnicodePlain (Str ''a+b\<newline>@d'') = ''a+b@d'' \<and>
   normalizeAddress normalizeNFCPlain toUnicodePlain
     (Str (normalizeAddress normalizeNFCPlain toUnicodePlain (Str ''a+b\<newline>@d''))) = ''a@d'' \<and>
   normalizeAddress normalizeNFCPlain toUnicodePlain
     (Str (normalizeAddress normalizeNFCPlain toUnicodePlain (Str ''a+b\<newline>@d'')))
     \<noteq> normalizeAddress normalizeNFCPlain toUnicodePlain (Str ''a+b\<newline>@d'')"
  by code_simp

end
